theory Spec2Isabelle
  imports Main "HOL-Library.Sublist"
begin

section \<open>Go strings and formatting\<close>

text \<open>
  A Go \<^verbatim>\<open>string\<close> is a sequence of bytes, here a \<^typ>\<open>string\<close>; \<^verbatim>\<open>len\<close> is
  \<^const>\<open>length\<close>. A Go \<^verbatim>\<open>error\<close> is represented by its message (the result of
  \<^verbatim>\<open>Error()\<close>), a nil error by \<^const>\<open>None\<close>, and a nil pointer by \<^const>\<open>None\<close>.
\<close>

type_synonym error = string

text \<open>\<^verbatim>\<open>strings.Index(s, sep)\<close>: the first position where \<open>sep\<close> starts; \<^const>\<open>None\<close> is Go's -1.\<close>

fun Index :: "string \<Rightarrow> string \<Rightarrow> nat option" where
  "Index [] sep = (if sep = [] then Some 0 else None)"
| "Index (c # cs) sep =
     (if prefix sep (c # cs) then Some 0 else map_option Suc (Index cs sep))"

text \<open>
  \<^verbatim>\<open>strings.SplitN(s, sep, n)\<close> for a non-empty separator and \<open>n \<ge> 0\<close>: at most \<open>n\<close>
  pieces, the last one the unsplit remainder. (The program's only call has
  \<open>sep = "://"\<close> and \<open>n = 2\<close>.)
\<close>

fun SplitN :: "string \<Rightarrow> string \<Rightarrow> nat \<Rightarrow> string list" where
  "SplitN s sep 0 = []"
| "SplitN s sep (Suc 0) = [s]"
| "SplitN s sep (Suc (Suc n)) =
     (case Index s sep of
        None \<Rightarrow> [s]
      | Some m \<Rightarrow> take m s # SplitN (drop (m + length sep) s) sep (Suc n))"

text \<open>\<^verbatim>\<open>strings.TrimPrefix(s, prefix)\<close>.\<close>

definition TrimPrefix :: "string \<Rightarrow> string \<Rightarrow> string" where
  "TrimPrefix s p = (if prefix p s then drop (length p) s else s)"

text \<open>The verb \<^verbatim>\<open>%d\<close> of package fmt on an integer: decimal digits, a minus sign when negative.\<close>

fun digits10 :: "nat \<Rightarrow> string" where
  "digits10 n =
     (if n < 10 then [''0123456789'' ! n]
      else digits10 (n div 10) @ [''0123456789'' ! (n mod 10)])"

declare digits10.simps [simp del]

definition fmt_d :: "int \<Rightarrow> string" where
  "fmt_d i = (if i < 0 then ''-'' @ digits10 (nat (- i)) else digits10 (nat i))"

section \<open>The HTTP data of the Go standard library\<close>

text \<open>\<^verbatim>\<open>url.URL\<close>, with the fields the program reads or writes.\<close>

record url_URL =
  Scheme :: string
  Host :: string
  Path :: string
  RawQuery :: string

text \<open>\<^verbatim>\<open>url.Values\<close> and \<^verbatim>\<open>http.Header\<close> are both \<^verbatim>\<open>map[string][]string\<close>.\<close>

type_synonym Values = "string \<rightharpoonup> string list"
type_synonym Header = "string \<rightharpoonup> string list"

text \<open>\<^verbatim>\<open>func (v Values) Set(key, value string) { v[key] = []string{value} }\<close>\<close>

definition Set :: "Values \<Rightarrow> string \<Rightarrow> string \<Rightarrow> Values" where
  "Set v key val = v(key \<mapsto> [val])"

text \<open>
  A call \<^verbatim>\<open>net.DialTimeout(network, address, timeout)\<close>, the timeout a
  \<^verbatim>\<open>time.Duration\<close> in nanoseconds. A dial function of a transport is modelled by the
  call it makes for the two arguments it is given.
\<close>

datatype dial = DialTimeout string string int

definition Second :: int where
  "Second = 1000000000"

definition defaultTimeout :: int where
  "defaultTimeout = 32 * Second"

text \<open>
  \<^verbatim>\<open>http.Transport\<close>, with the two fields the program sets, and \<^verbatim>\<open>http.Client\<close>.
  \<open>new_Transport\<close> is \<^verbatim>\<open>new(http.Transport)\<close>, the zero value.
\<close>

record http_Transport =
  DisableCompression :: bool
  Dial :: "(string \<Rightarrow> string \<Rightarrow> dial) option"

definition new_Transport :: http_Transport where
  "new_Transport = \<lparr>DisableCompression = False, Dial = None\<rparr>"

record http_Client =
  Transport :: http_Transport

record http_Request =
  Method :: string
  URL :: url_URL
  Header :: Header
  ReqHost :: string
  ReqBody :: string

text \<open>
  A response body is a stream: the chunks that successive \<^verbatim>\<open>Read\<close> calls deliver, then
  either \<^verbatim>\<open>io.EOF\<close> (\<open>failure = None\<close>) or a read error.
\<close>

record stream =
  chunks :: "string list"
  failure :: "error option"

record http_Response =
  StatusCode :: int
  Body :: stream

text \<open>What a call does to the outside: the request handed to the HTTP client, and each
  operation on the response body, in the order they happen.\<close>

datatype effect =
    DoRequest http_Request
  | BodyRead string
  | BodyEOF
  | BodyReadError error
  | BodyClose

text \<open>
  \<^verbatim>\<open>ioutil.ReadAll(r)\<close>: reads until \<^verbatim>\<open>io.EOF\<close> or an error, and returns what it read
  with a nil error at EOF and with the error otherwise.
\<close>

definition ReadAll :: "stream \<Rightarrow> string \<times> error option \<times> effect list" where
  "ReadAll r =
     (concat (chunks r), failure r,
      map BodyRead (chunks r) @
        [case failure r of None \<Rightarrow> BodyEOF | Some e \<Rightarrow> BodyReadError e])"

text \<open>
  The functions of the standard library and of the platform that the program calls and
  that are not modelled here are parameters of the model:
  \<^item> \<open>url_Parse\<close> is \<^verbatim>\<open>url.Parse\<close>;
  \<^item> \<open>sockaddr_Path_len\<close> is \<^verbatim>\<open>len(syscall.RawSockaddrUnix{}.Path)\<close>;
  \<^item> \<open>Quote\<close> is the verb \<^verbatim>\<open>%q\<close> of package fmt on a string;
  \<^item> \<open>URL_String\<close> is \<^verbatim>\<open>(*url.URL).String\<close>, \<open>Values_Encode\<close> is \<^verbatim>\<open>url.Values.Encode\<close>;
  \<^item> \<open>NewRequest\<close> is \<^verbatim>\<open>http.NewRequest\<close> (method, URL, body);
  \<^item> \<open>ctxhttp_Do\<close> is \<^verbatim>\<open>ctxhttp.Do\<close>: the daemon's answer to a request, or the error of
    the transport or of the cancelled context.
\<close>

record 'ctx world =
  url_Parse :: "string \<Rightarrow> error + url_URL"
  sockaddr_Path_len :: nat
  Quote :: "string \<Rightarrow> string"
  URL_String :: "url_URL \<Rightarrow> string"
  Values_Encode :: "Values \<Rightarrow> string"
  NewRequest :: "string \<Rightarrow> string \<Rightarrow> string \<Rightarrow> error + http_Request"
  ctxhttp_Do :: "'ctx \<Rightarrow> http_Client option \<Rightarrow> http_Request \<Rightarrow> error + http_Response"

section \<open>The docker daemon client\<close>

record dockerClient =
  version :: string
  scheme :: string
  addr :: string
  basePath :: string
  registry :: string
  client :: "http_Client option"

text \<open>
  \<^verbatim>\<open>parseHost\<close> returns four values, as in the source: the client (a pointer, nil on
  failure), the address, the base path and the error. \<open>strs ! 0\<close> and \<open>strs ! 1\<close> are
  in range where they are read: \<open>SplitN\<close> with \<open>n = 2\<close> returns one or two pieces.
\<close>

definition parseHost ::
  "'ctx world \<Rightarrow> string \<Rightarrow> http_Client option \<times> string \<times> string \<times> error option" where
  "parseHost w host =
     (let strs = SplitN host ''://'' 2 in
      if length strs = 1 then
        (None, [], [], Some (''unable to parse docker host `'' @ host @ ''`''))
      else
        let basePath = [];
            transport = new_Transport;
            protocol = strs ! 0;
            addr = strs ! 1
        in
          if protocol = ''tcp'' then
            (case url_Parse w (''tcp://'' @ addr) of
               Inl err \<Rightarrow> (None, [], [], Some err)
             | Inr parsed \<Rightarrow>
                 (Some \<lparr>Transport = transport\<rparr>, Host parsed, Path parsed, None))
          else if protocol = ''unix'' then
            (if length addr > sockaddr_Path_len w then
               (None, [], [], Some (''Unix socket path '' @ Quote w addr @ '' is too long''))
             else
               (Some \<lparr>Transport = transport
                         \<lparr>DisableCompression := True,
                          Dial := Some (\<lambda>_ _. DialTimeout protocol addr defaultTimeout)\<rparr>\<rparr>,
                addr, basePath, None))
          else
            (None, [], [], Some (''Protocol '' @ protocol @ '' not supported'')))"

definition NewDockerClient ::
  "'ctx world \<Rightarrow> string \<Rightarrow> string \<Rightarrow> string \<Rightarrow> string \<Rightarrow> dockerClient option \<times> error option" where
  "NewDockerClient w host scheme' version' registry' =
     (case parseHost w host of
        (client', addr', basePath', err) \<Rightarrow>
          (case err of
             Some e \<Rightarrow> (None, Some (''parse docker host `'' @ host @ ''`: '' @ e))
           | None \<Rightarrow>
               (Some \<lparr>version = version', scheme = scheme', addr = addr',
                      basePath = basePath', registry = registry', client = client'\<rparr>,
                None)))"

text \<open>The local variable \<^verbatim>\<open>apiPath\<close> of \<^verbatim>\<open>post\<close>.\<close>

definition apiPath :: "dockerClient \<Rightarrow> string \<Rightarrow> string" where
  "apiPath cli urlPath =
     (if version cli \<noteq> [] then
        let v = TrimPrefix (version cli) ''v'' in basePath cli @ ''/v'' @ v @ urlPath
      else basePath cli @ urlPath)"

text \<open>
  \<^verbatim>\<open>post\<close> returns its error (\<^const>\<open>None\<close> is nil) and the effects it had. A nil
  \<^verbatim>\<open>body\<close> is \<^const>\<open>None\<close>; \<^verbatim>\<open>len(query) > 0\<close> is \<open>query \<noteq> Map.empty\<close>. The deferred
  \<^verbatim>\<open>resp.Body.Close()\<close> runs last on every path after a response has arrived.
\<close>

definition post ::
  "'ctx world \<Rightarrow> dockerClient \<Rightarrow> 'ctx \<Rightarrow> string \<Rightarrow> Values \<Rightarrow> Header \<Rightarrow> string option \<Rightarrow> bool
     \<Rightarrow> error option \<times> effect list" where
  "post w cli ctx urlPath query header body streamRespBody =
     (let u = \<lparr>Scheme = [], Host = [], Path = apiPath cli urlPath, RawQuery = []\<rparr>;
          u = (if query \<noteq> Map.empty then u\<lparr>RawQuery := Values_Encode w query\<rparr> else u);
          body = (case body of None \<Rightarrow> [] | Some b \<Rightarrow> b)
      in
        case NewRequest w ''POST'' (URL_String w u) body of
          Inl err \<Rightarrow> (Some (''create request: '' @ err), [])
        | Inr req \<Rightarrow>
            let req = req\<lparr>Header := header, ReqHost := ''docker'',
                          URL := (URL req)\<lparr>Host := addr cli, Scheme := scheme cli\<rparr>\<rparr>
            in
              (case ctxhttp_Do w ctx (client cli) req of
                 Inl err \<Rightarrow> (Some (''send post request: '' @ err), [DoRequest req])
               | Inr resp \<Rightarrow>
                   if StatusCode resp \<noteq> 200 then
                     (case ReadAll (Body resp) of
                        (errMsg, Some err, reads) \<Rightarrow>
                          (Some (''read error resp: '' @ err),
                           DoRequest req # reads @ [BodyClose])
                      | (errMsg, None, reads) \<Rightarrow>
                          (Some (''Error posting to '' @ urlPath @ '': code '' @
                                 fmt_d (StatusCode resp) @ '', err: '' @ errMsg),
                           DoRequest req # reads @ [BodyClose]))
                   else if streamRespBody then
                     (case ReadAll (Body resp) of
                        (_, Some err, reads) \<Rightarrow>
                          (Some (''read resp body: '' @ err),
                           DoRequest req # reads @ [BodyClose])
                      | (_, None, reads) \<Rightarrow> (None, DoRequest req # reads @ [BodyClose]))
                   else (None, [DoRequest req, BodyClose])))"

definition ImagePull ::
  "'ctx world \<Rightarrow> dockerClient \<Rightarrow> 'ctx \<Rightarrow> string \<Rightarrow> string \<Rightarrow> error option \<times> effect list" where
  "ImagePull w cli ctx repo tag =
     (let v = Map.empty;
          fromImage = registry cli @ ''/'' @ repo;
          v = Set v ''fromImage'' fromImage;
          v = Set v ''tag'' tag;
          headers = [''X-Registry-Auth'' \<mapsto> ['''']]
      in post w cli ctx ''/images/create'' v headers None True)"

text \<open>
  Shorthands for three values inside \<open>post\<close>: the URL string given to
  \<^verbatim>\<open>http.NewRequest\<close>, the request body after the nil default, and the request after the
  four assignments that follow its creation.
\<close>

abbreviation request_url :: "'ctx world \<Rightarrow> dockerClient \<Rightarrow> string \<Rightarrow> Values \<Rightarrow> string" where
  "request_url w cli urlPath query \<equiv>
     URL_String w \<lparr>Scheme = [], Host = [], Path = apiPath cli urlPath,
                   RawQuery = (if query = Map.empty then [] else Values_Encode w query)\<rparr>"

abbreviation request_body :: "string option \<Rightarrow> string" where
  "request_body body \<equiv> (case body of None \<Rightarrow> [] | Some b \<Rightarrow> b)"

abbreviation as_sent :: "dockerClient \<Rightarrow> Header \<Rightarrow> http_Request \<Rightarrow> http_Request" where
  "as_sent cli header req \<equiv>
     req\<lparr>Header := header, ReqHost := ''docker'',
         URL := (URL req)\<lparr>Host := addr cli, Scheme := scheme cli\<rparr>\<rparr>"

section \<open>An environment for the examples\<close>

text \<open>
  The examples below run the client against a fixed environment. Each library function
  is given by its value at the arguments the examples reach, as the Go library computes
  it there:
  \<^item> \<^verbatim>\<open>url.Parse("tcp://localhost:2375/base")\<close> has the host \<^verbatim>\<open>localhost:2375\<close> and the
    path \<^verbatim>\<open>/base\<close>, and \<^verbatim>\<open>url.Parse("tcp://localhost:2375/")\<close> has the path \<^verbatim>\<open>/\<close>;
  \<^item> \<^verbatim>\<open>%q\<close> puts a string of letters between double quotes;
  \<^item> a URL with only a path that starts with a slash and has no special characters, and
    a query, prints as \<^verbatim>\<open>path?query\<close>;
  \<^item> \<^verbatim>\<open>http.NewRequest\<close> parses its URL string with \<^verbatim>\<open>url.Parse\<close>, which reads what
    follows two leading slashes, up to the next slash, as the host: the string
    \<^verbatim>\<open>//v1.24/images/create?q\<close> has the host \<^verbatim>\<open>v1.24\<close> and the path
    \<^verbatim>\<open>/images/create\<close>. The new request's \<^verbatim>\<open>Host\<close> is the URL's host.

  At every other argument a function answers with an error or the empty string, which no
  example reads. The socket path limit is that of Linux. The daemon's answer to the
  request is the parameter.
\<close>

definition example_world :: "error + http_Response \<Rightarrow> unit world" where
  "example_world answer =
     \<lparr>url_Parse = (\<lambda>s.
        if s = ''tcp://localhost:2375/base'' then
          Inr \<lparr>Scheme = ''tcp'', Host = ''localhost:2375'', Path = ''/base'', RawQuery = []\<rparr>
        else if s = ''tcp://localhost:2375'' then
          Inr \<lparr>Scheme = ''tcp'', Host = ''localhost:2375'', Path = [], RawQuery = []\<rparr>
        else if s = ''tcp://localhost:2375/'' then
          Inr \<lparr>Scheme = ''tcp'', Host = ''localhost:2375'', Path = ''/'', RawQuery = []\<rparr>
        else Inl ''not an example''),
      sockaddr_Path_len = 108,
      Quote = (\<lambda>s. CHR 0x22 # s @ [CHR 0x22]),
      URL_String = (\<lambda>u. Path u @ (if RawQuery u = [] then [] else ''?'' @ RawQuery u)),
      Values_Encode = (\<lambda>q.
        if q ''fromImage'' = Some [''registry.local/alpine''] \<and> q ''tag'' = Some [''latest'']
        then ''fromImage=registry.local%2Falpine&tag=latest'' else []),
      NewRequest = (\<lambda>m u b.
        if u = ''/v1.24/images/create?fromImage=registry.local%2Falpine&tag=latest'' then
          Inr \<lparr>Method = m,
               URL = \<lparr>Scheme = [], Host = [], Path = ''/v1.24/images/create'',
                      RawQuery = ''fromImage=registry.local%2Falpine&tag=latest''\<rparr>,
               Header = Map.empty, ReqHost = [], ReqBody = b\<rparr>
        else if u = ''//v1.24/images/create?fromImage=registry.local%2Falpine&tag=latest'' then
          Inr \<lparr>Method = m,
               URL = \<lparr>Scheme = [], Host = ''v1.24'', Path = ''/images/create'',
                      RawQuery = ''fromImage=registry.local%2Falpine&tag=latest''\<rparr>,
               Header = Map.empty, ReqHost = ''v1.24'', ReqBody = b\<rparr>
        else if u = ''//v/images/create?fromImage=registry.local%2Falpine&tag=latest'' then
          Inr \<lparr>Method = m,
               URL = \<lparr>Scheme = [], Host = ''v'', Path = ''/images/create'',
                      RawQuery = ''fromImage=registry.local%2Falpine&tag=latest''\<rparr>,
               Header = Map.empty, ReqHost = ''v'', ReqBody = b\<rparr>
        else Inl ''not an example''),
      ctxhttp_Do = (\<lambda>_ _ _. answer)\<rparr>"

text \<open>The client that \<open>NewDockerClient\<close> builds for the daemon's usual Unix socket.\<close>

definition example_client :: dockerClient where
  "example_client =
     \<lparr>version = ''1.24'', scheme = ''http'', addr = ''/var/run/docker.sock'', basePath = [],
      registry = ''registry.local'',
      client = Some \<lparr>Transport = \<lparr>DisableCompression = True,
        Dial = Some (\<lambda>_ _. DialTimeout ''unix'' ''/var/run/docker.sock'' defaultTimeout)\<rparr>\<rparr>\<rparr>"

text \<open>The request that pulling \<^verbatim>\<open>alpine:latest\<close> with this client hands to the HTTP client.\<close>

definition example_request :: http_Request where
  "example_request =
     \<lparr>Method = ''POST'',
      URL = \<lparr>Scheme = ''http'', Host = ''/var/run/docker.sock'', Path = ''/v1.24/images/create'',
             RawQuery = ''fromImage=registry.local%2Falpine&tag=latest''\<rparr>,
      Header = [''X-Registry-Auth'' \<mapsto> ['''']], ReqHost = ''docker'', ReqBody = []\<rparr>"

text \<open>
  The client that \<open>NewDockerClient\<close> builds for \<^verbatim>\<open>tcp://localhost:2375/\<close>, whose base path
  is a single slash, with a given version; and the request that pulling \<^verbatim>\<open>alpine:latest\<close>
  with it hands to the HTTP client, for the versions \<^verbatim>\<open>1.24\<close> and \<^verbatim>\<open>v\<close> alike.
\<close>

definition root_client :: "string \<Rightarrow> dockerClient" where
  "root_client ver =
     \<lparr>version = ver, scheme = ''http'', addr = ''localhost:2375'', basePath = ''/'',
      registry = ''registry.local'', client = Some \<lparr>Transport = new_Transport\<rparr>\<rparr>"

definition root_request :: http_Request where
  "root_request =
     \<lparr>Method = ''POST'',
      URL = \<lparr>Scheme = ''http'', Host = ''localhost:2375'', Path = ''/images/create'',
             RawQuery = ''fromImage=registry.local%2Falpine&tag=latest''\<rparr>,
      Header = [''X-Registry-Auth'' \<mapsto> ['''']], ReqHost = ''docker'', ReqBody = []\<rparr>"



section \<open>Splitting at the scheme separator\<close>

lemma Index_None_iff: "Index s sep = None \<longleftrightarrow> \<not> sublist sep s"
  by (induction s) (auto simp: sublist_Cons_right)

lemma Index_Some_prefix: "Index s sep = Some m \<Longrightarrow> prefix sep (drop m s)"
  by (induction s arbitrary: m) (auto split: if_splits)

text \<open>The separator cannot overlap itself, so a scheme without it ends at its first
  occurrence.\<close>

lemma Index_first:
  "\<not> sublist ''://'' p \<Longrightarrow> Index (p @ ''://'' @ r) ''://'' = Some (length p)"
proof (induction p)
  case Nil
  show ?case by simp
next
  case (Cons c p)
  from Cons.prems have np: "\<not> prefix ''://'' (c # p)" and ns: "\<not> sublist ''://'' p"
    by (simp_all add: sublist_Cons_right)
  have "\<not> prefix ''://'' (c # p @ ''://'' @ r)"
  proof
    assume "prefix ''://'' (c # p @ ''://'' @ r)"
    then obtain t where t: "c # p @ ''://'' @ r = ''://'' @ t"
      by (auto simp: prefix_def)
    show False
    proof (cases p)
      case Nil
      with t show False by simp
    next
      case (Cons d q)
      note pd = this
      show False
      proof (cases q)
        case Nil
        with t pd show False by simp
      next
        case (Cons e q')
        with t pd have "c # p = ''://'' @ q'" by simp
        then have "prefix ''://'' (c # p)" by (simp add: prefix_def)
        with np show False by simp
      qed
    qed
  qed
  with Cons.IH [OF ns] show ?case by simp
qed

lemma SplitN_no_sep:
  assumes "\<not> sublist sep s"
  shows "SplitN s sep 2 = [s]"
proof -
  from assms have "Index s sep = None"
    by (simp add: Index_None_iff)
  then show ?thesis
    by (simp add: numeral_2_eq_2)
qed

lemma SplitN_first_sep:
  assumes "\<not> sublist ''://'' p"
  shows "SplitN (p @ ''://'' @ r) ''://'' 2 = [p, r]"
proof -
  define s where "s = p @ ''://'' @ r"
  from assms have "Index s ''://'' = Some (length p)"
    unfolding s_def by (rule Index_first)
  then have "SplitN s ''://'' 2 = [take (length p) s, drop (length p + 3) s]"
    by (simp add: numeral_2_eq_2 numeral_3_eq_3)
  then show ?thesis
    by (simp add: s_def)
qed

lemma SplitN_2_length: "length (SplitN s sep 2) = 1 \<or> length (SplitN s sep 2) = 2"
  by (simp add: numeral_2_eq_2 split: option.split)

lemma not_sublist_tcp: "\<not> sublist ''://'' ''tcp''"
  by (simp add: sublist_Cons_right)

lemma not_sublist_unix: "\<not> sublist ''://'' ''unix''"
  by (simp add: sublist_Cons_right)

section \<open>The path that the executor builds\<close>

text \<open>
  The value of \<^verbatim>\<open>apiPath\<close>, before it is printed into the URL string: with a non-empty
  version it is the base path, \<open>/v\<close>, the version without one leading \<open>v\<close>, and the
  operation path; with the empty version it is the base path and the operation path.
\<close>

lemma apiPath_version:
  "(\<forall>r. version cli = ''v'' @ r \<longrightarrow> apiPath cli urlPath = basePath cli @ ''/v'' @ r @ urlPath) \<and>
   (version cli \<noteq> [] \<and> \<not> prefix ''v'' (version cli) \<longrightarrow>
      apiPath cli urlPath = basePath cli @ ''/v'' @ version cli @ urlPath) \<and>
   (version cli = ''1.24'' \<longrightarrow> sublist ''/v1.24/'' (apiPath cli (''/'' @ operation))) \<and>
   (version cli = [] \<longrightarrow> apiPath cli urlPath = basePath cli @ urlPath)"
proof -
  have "sublist ''/v1.24/'' (basePath cli @ ''/v1.24/'' @ operation)"
    unfolding sublist_def by blast
  then show ?thesis
    by (auto simp: apiPath_def TrimPrefix_def)
qed

text \<open>A version that is exactly \<open>v\<close> leaves a bare \<open>/v\<close> in the built path; the built
  path has no version segment only when the version is empty.\<close>

lemma apiPath_bare_v:
  "(version cli = ''v'' \<longrightarrow> apiPath cli urlPath = basePath cli @ ''/v'' @ urlPath) \<and>
   (apiPath cli urlPath = basePath cli @ urlPath \<longleftrightarrow> version cli = [])"
  by (auto simp: apiPath_def TrimPrefix_def)


section \<open>Host resolution\<close>


lemma SplitN_2_cases:
  "SplitN host ''://'' 2 = [host] \<and> \<not> sublist ''://'' host \<or>
   (\<exists>p r. host = p @ ''://'' @ r \<and> SplitN host ''://'' 2 = [p, r])"
proof (cases "Index host ''://''")
  case None
  then have "\<not> sublist ''://'' host"
    by (simp add: Index_None_iff)
  then show ?thesis
    by (simp add: SplitN_no_sep)
next
  case (Some m)
  then have "prefix ''://'' (drop m host)"
    by (rule Index_Some_prefix)
  then obtain r where r: "drop m host = ''://'' @ r"
    by (auto simp: prefix_def)
  have "drop (m + 3) host = drop 3 (drop m host)"
    by (simp add: add.commute)
  with r have d: "drop (m + 3) host = r"
    by simp
  have h: "host = take m host @ ''://'' @ r"
    using r append_take_drop_id [of m host] by simp
  from Some d have "SplitN host ''://'' 2 = [take m host, r]"
    by (simp add: numeral_2_eq_2 numeral_3_eq_3)
  with h show ?thesis by blast
qed

lemma parseHost_no_sep:
  assumes "\<not> sublist ''://'' host"
  shows "parseHost w host = (None, [], [], Some (''unable to parse docker host `'' @ host @ ''`''))"
  using SplitN_no_sep [OF assms] by (simp add: parseHost_def)

lemma parseHost_pieces:
  assumes "SplitN host ''://'' 2 = [p, r]"
  shows "parseHost w host =
     (if p = ''tcp'' then
        (case url_Parse w (''tcp://'' @ r) of
           Inl err \<Rightarrow> (None, [], [], Some err)
         | Inr parsed \<Rightarrow> (Some \<lparr>Transport = new_Transport\<rparr>, Host parsed, Path parsed, None))
      else if p = ''unix'' then
        (if length r > sockaddr_Path_len w then
           (None, [], [], Some (''Unix socket path '' @ Quote w r @ '' is too long''))
         else
           (Some \<lparr>Transport = \<lparr>DisableCompression = True,
                    Dial = Some (\<lambda>_ _. DialTimeout ''unix'' r defaultTimeout)\<rparr>\<rparr>,
            r, [], None))
      else (None, [], [], Some (''Protocol '' @ p @ '' not supported'')))"
  using assms unfolding parseHost_def Let_def by (simp add: new_Transport_def)

lemma parseHost_scheme:
  assumes "\<not> sublist ''://'' p"
  shows "parseHost w (p @ ''://'' @ r) =
     (if p = ''tcp'' then
        (case url_Parse w (''tcp://'' @ r) of
           Inl err \<Rightarrow> (None, [], [], Some err)
         | Inr parsed \<Rightarrow> (Some \<lparr>Transport = new_Transport\<rparr>, Host parsed, Path parsed, None))
      else if p = ''unix'' then
        (if length r > sockaddr_Path_len w then
           (None, [], [], Some (''Unix socket path '' @ Quote w r @ '' is too long''))
         else
           (Some \<lparr>Transport = \<lparr>DisableCompression = True,
                    Dial = Some (\<lambda>_ _. DialTimeout ''unix'' r defaultTimeout)\<rparr>\<rparr>,
            r, [], None))
      else (None, [], [], Some (''Protocol '' @ p @ '' not supported'')))"
  using SplitN_first_sep [OF assms, of r] by (rule parseHost_pieces)

lemma parseHost_tcp_eq:
  "parseHost w (''tcp://'' @ rest) =
     (case url_Parse w (''tcp://'' @ rest) of
        Inl err \<Rightarrow> (None, [], [], Some err)
      | Inr parsed \<Rightarrow> (Some \<lparr>Transport = new_Transport\<rparr>, Host parsed, Path parsed, None))"
  using parseHost_scheme [OF not_sublist_tcp, of w rest] by simp

lemma parseHost_unix_eq:
  "parseHost w (''unix://'' @ path) =
     (if length path > sockaddr_Path_len w then
        (None, [], [], Some (''Unix socket path '' @ Quote w path @ '' is too long''))
      else
        (Some \<lparr>Transport = \<lparr>DisableCompression = True,
                 Dial = Some (\<lambda>_ _. DialTimeout ''unix'' path defaultTimeout)\<rparr>\<rparr>,
         path, [], None))"
  using parseHost_scheme [OF not_sublist_unix, of w path] by simp

text \<open>
  C5. A Unix socket path within the platform's limit resolves to a transport with
  compression disabled whose dial function calls \<^verbatim>\<open>net.DialTimeout\<close> on that path with
  32 seconds (in nanoseconds), whatever network and address it is given; the address is
  the path and the base path is empty. A longer path gives the error about the path's
  length and a nil client.
\<close>

theorem parseHost_unix:
  "(length path \<le> sockaddr_Path_len w \<longrightarrow>
      (\<exists>d. parseHost w (''unix://'' @ path) =
              (Some \<lparr>Transport = \<lparr>DisableCompression = True, Dial = Some d\<rparr>\<rparr>, path, [], None) \<and>
           (\<forall>network address. d network address = DialTimeout ''unix'' path (32 * 1000000000)))) \<and>
   (length path > sockaddr_Path_len w \<longrightarrow>
      parseHost w (''unix://'' @ path) =
        (None, [], [], Some (''Unix socket path '' @ Quote w path @ '' is too long'')))"
  using parseHost_unix_eq [of w path] by (simp add: defaultTimeout_def Second_def)

theorem parseHost_unix_witness:
  "(\<exists>d. parseHost (example_world (Inl [])) ''unix:///var/run/docker.sock'' =
      (Some \<lparr>Transport = \<lparr>DisableCompression = True, Dial = Some d\<rparr>\<rparr>,
       ''/var/run/docker.sock'', [], None) \<and>
      d ''tcp'' ''localhost:2375'' = DialTimeout ''unix'' ''/var/run/docker.sock'' 32000000000) \<and>
   parseHost (example_world (Inl [])) (''unix://'' @ replicate 109 CHR ''a'') =
     (None, [], [],
      Some (''Unix socket path '' @ [CHR 0x22] @ replicate 109 CHR ''a'' @ [CHR 0x22] @ '' is too long''))"
proof -
  have short: "length ''/var/run/docker.sock'' \<le> sockaddr_Path_len (example_world (Inl []))"
    by (simp add: example_world_def)
  have long: "length (replicate 109 CHR ''a'') > sockaddr_Path_len (example_world (Inl []))"
    by (simp add: example_world_def)
  have q: "Quote (example_world (Inl [])) (replicate 109 CHR ''a'')
             = [CHR 0x22] @ replicate 109 CHR ''a'' @ [CHR 0x22]"
    by (simp add: example_world_def)
  from short parseHost_unix [of "''/var/run/docker.sock''" "example_world (Inl [])"]
  obtain d where "parseHost (example_world (Inl [])) (''unix://'' @ ''/var/run/docker.sock'') =
      (Some \<lparr>Transport = \<lparr>DisableCompression = True, Dial = Some d\<rparr>\<rparr>,
       ''/var/run/docker.sock'', [], None)"
    and "\<forall>network address. d network address = DialTimeout ''unix'' ''/var/run/docker.sock'' (32 * 1000000000)"
    by blast
  then have a: "\<exists>d. parseHost (example_world (Inl [])) ''unix:///var/run/docker.sock'' =
      (Some \<lparr>Transport = \<lparr>DisableCompression = True, Dial = Some d\<rparr>\<rparr>,
       ''/var/run/docker.sock'', [], None) \<and>
      d ''tcp'' ''localhost:2375'' = DialTimeout ''unix'' ''/var/run/docker.sock'' 32000000000"
    by simp
  from long parseHost_unix [of "replicate 109 CHR ''a''" "example_world (Inl [])"] q
  have b: "parseHost (example_world (Inl [])) (''unix://'' @ replicate 109 CHR ''a'') =
     (None, [], [],
      Some (''Unix socket path '' @ [CHR 0x22] @ replicate 109 CHR ''a'' @ [CHR 0x22] @ '' is too long''))"
    by simp
  from a b show ?thesis by blast
qed

text \<open>
  C6. When \<^verbatim>\<open>url.Parse\<close> accepts a \<open>tcp://\<close> address, resolution succeeds: the
  effective host is the host component of the parsed URL and the base path is its path
  component, so an empty path gives an empty base path.
\<close>

theorem parseHost_tcp:
  assumes "url_Parse w (''tcp://'' @ rest) = Inr parsed"
  shows "parseHost w (''tcp://'' @ rest) =
           (Some \<lparr>Transport = new_Transport\<rparr>, Host parsed, Path parsed, None) \<and>
         (Path parsed = [] \<longrightarrow> fst (snd (snd (parseHost w (''tcp://'' @ rest)))) = [])"
  using assms parseHost_tcp_eq [of w rest] by simp

theorem parseHost_tcp_witness:
  "parseHost (example_world (Inl [])) ''tcp://localhost:2375/base'' =
     (Some \<lparr>Transport = new_Transport\<rparr>, ''localhost:2375'', ''/base'', None) \<and>
   parseHost (example_world (Inl [])) ''tcp://localhost:2375'' =
     (Some \<lparr>Transport = new_Transport\<rparr>, ''localhost:2375'', [], None)"
proof -
  have a: "url_Parse (example_world (Inl [])) (''tcp://'' @ ''localhost:2375/base'') =
      Inr \<lparr>Scheme = ''tcp'', Host = ''localhost:2375'', Path = ''/base'', RawQuery = []\<rparr>"
    by (simp add: example_world_def)
  have b: "url_Parse (example_world (Inl [])) (''tcp://'' @ ''localhost:2375'') =
      Inr \<lparr>Scheme = ''tcp'', Host = ''localhost:2375'', Path = [], RawQuery = []\<rparr>"
    by (simp add: example_world_def)
  from parseHost_tcp [OF a] parseHost_tcp [OF b] show ?thesis
    by simp
qed

text \<open>
  C7. An address without the separator \<open>://\<close>, and an address whose scheme (the part
  before the first separator) is neither \<open>tcp\<close> nor \<open>unix\<close>, is rejected: resolution
  returns a nil client with an error, and so does the construction of the client.
\<close>

theorem parseHost_rejects:
  assumes "\<not> sublist ''://'' host \<or>
           (\<exists>protocol rest. host = protocol @ ''://'' @ rest \<and> \<not> sublist ''://'' protocol \<and>
              protocol \<noteq> ''tcp'' \<and> protocol \<noteq> ''unix'')"
  shows "\<exists>err. parseHost w host = (None, [], [], Some err) \<and>
           NewDockerClient w host sch ver reg =
             (None, Some (''parse docker host `'' @ host @ ''`: '' @ err))"
  using assms
proof
  assume "\<not> sublist ''://'' host"
  then show ?thesis
    by (simp add: parseHost_no_sep NewDockerClient_def)
next
  assume "\<exists>protocol rest. host = protocol @ ''://'' @ rest \<and> \<not> sublist ''://'' protocol \<and>
              protocol \<noteq> ''tcp'' \<and> protocol \<noteq> ''unix''"
  then obtain protocol rest where h: "host = protocol @ ''://'' @ rest"
    and p: "\<not> sublist ''://'' protocol" "protocol \<noteq> ''tcp''" "protocol \<noteq> ''unix''"
    by blast
  from p have "parseHost w host = (None, [], [], Some (''Protocol '' @ protocol @ '' not supported''))"
    unfolding h using parseHost_scheme [of protocol w rest] by simp
  then show ?thesis
    by (simp add: NewDockerClient_def)
qed

theorem parseHost_rejects_witness:
  "parseHost (example_world (Inl [])) ''localhost:2375'' =
     (None, [], [], Some ''unable to parse docker host `localhost:2375`'') \<and>
   NewDockerClient (example_world (Inl [])) ''localhost:2375'' ''http'' ''1.24'' ''registry.local'' =
     (None, Some ''parse docker host `localhost:2375`: unable to parse docker host `localhost:2375`'') \<and>
   parseHost (example_world (Inl [])) ''http://localhost:2375'' =
     (None, [], [], Some ''Protocol http not supported'') \<and>
   NewDockerClient (example_world (Inl [])) ''http://localhost:2375'' ''http'' ''1.24'' ''registry.local'' =
     (None, Some ''parse docker host `http://localhost:2375`: Protocol http not supported'')"
proof -
  have a: "\<not> sublist ''://'' ''localhost:2375''"
    by (simp add: sublist_Cons_right)
  have "\<not> sublist ''://'' ''http''"
    by (simp add: sublist_Cons_right)
  then have b: "\<exists>protocol rest. ''http://localhost:2375'' = protocol @ ''://'' @ rest \<and>
      \<not> sublist ''://'' protocol \<and> protocol \<noteq> ''tcp'' \<and> protocol \<noteq> ''unix''"
    by (intro exI [of _ "''http''"] exI [of _ "''localhost:2375''"]) simp
  have na: "parseHost (example_world (Inl [])) ''localhost:2375'' =
     (None, [], [], Some ''unable to parse docker host `localhost:2375`'')"
    using a by (simp add: parseHost_no_sep)
  have nb: "parseHost (example_world (Inl [])) ''http://localhost:2375'' =
     (None, [], [], Some ''Protocol http not supported'')"
    using parseHost_scheme [of "''http''" "example_world (Inl [])" "''localhost:2375''"]
    by (simp add: sublist_Cons_right)
  from parseHost_rejects [of "''localhost:2375''" "example_world (Inl [])" "''http''" "''1.24''" "''registry.local''"]
    parseHost_rejects [of "''http://localhost:2375''" "example_world (Inl [])" "''http''" "''1.24''" "''registry.local''"]
    a b na nb
  show ?thesis
    by auto
qed

text \<open>
  C9. The transport returned for a \<open>tcp://\<close> address is the zero value: compression
  is not disabled and there is no dial function. A returned transport that differs from
  the zero value belongs to a \<open>unix://\<close> address.
\<close>

theorem parseHost_tcp_transport:
  assumes "parseHost w host = (Some c, a, b, e)"
  shows "(prefix ''tcp://'' host \<longrightarrow>
            DisableCompression (Transport c) = False \<and> Dial (Transport c) = None) \<and>
         (Transport c \<noteq> new_Transport \<longrightarrow> prefix ''unix://'' host)"
proof -
  from SplitN_2_cases [of host] assms
  obtain p r where h: "host = p @ ''://'' @ r" and s: "SplitN host ''://'' 2 = [p, r]"
    by (auto simp: parseHost_no_sep)
  note eq = parseHost_pieces [OF s, of w]
  have unix: "Transport c \<noteq> new_Transport \<longrightarrow> prefix ''unix://'' host"
  proof
    assume n: "Transport c \<noteq> new_Transport"
    with assms eq have "p = ''unix''"
      by (auto split: if_splits sum.splits)
    with h show "prefix ''unix://'' host"
      by (simp add: prefix_def)
  qed
  have tcp: "prefix ''tcp://'' host \<longrightarrow>
            DisableCompression (Transport c) = False \<and> Dial (Transport c) = None"
  proof
    assume "prefix ''tcp://'' host"
    then obtain rest where "host = ''tcp://'' @ rest"
      by (auto simp: prefix_def)
    with assms have "parseHost w (''tcp://'' @ rest) = (Some c, a, b, e)"
      by simp
    then have "c = \<lparr>Transport = new_Transport\<rparr>"
      unfolding parseHost_tcp_eq by (auto split: sum.splits)
    then show "DisableCompression (Transport c) = False \<and> Dial (Transport c) = None"
      by (simp add: new_Transport_def)
  qed
  from tcp unix show ?thesis by blast
qed

theorem parseHost_tcp_transport_witness:
  "parseHost (example_world (Inl [])) ''tcp://localhost:2375/base'' =
     (Some \<lparr>Transport = \<lparr>DisableCompression = False, Dial = None\<rparr>\<rparr>,
      ''localhost:2375'', ''/base'', None) \<and>
   prefix ''tcp://'' ''tcp://localhost:2375/base'' \<and>
   DisableCompression (Transport \<lparr>Transport = \<lparr>DisableCompression = False, Dial = None\<rparr>\<rparr>) = False \<and>
   Dial (Transport \<lparr>Transport = \<lparr>DisableCompression = False, Dial = None\<rparr>\<rparr>) = None"
proof -
  have p: "parseHost (example_world (Inl [])) ''tcp://localhost:2375/base'' =
     (Some \<lparr>Transport = \<lparr>DisableCompression = False, Dial = None\<rparr>\<rparr>,
      ''localhost:2375'', ''/base'', None)"
    using parseHost_tcp_eq [of "example_world (Inl [])" "''localhost:2375/base''"]
    by (simp add: example_world_def new_Transport_def)
  have q: "prefix ''tcp://'' ''tcp://localhost:2375/base''"
    by simp
  from parseHost_tcp_transport [OF p] q p show ?thesis
    by blast
qed

section \<open>The request executor\<close>

lemma ReadAll_eq:
  "ReadAll b = (concat (chunks b), failure b,
      map BodyRead (chunks b) @ [case failure b of None \<Rightarrow> BodyEOF | Some e \<Rightarrow> BodyReadError e])"
  by (simp add: ReadAll_def)

lemma post_create_fails:
  assumes "NewRequest w ''POST'' (request_url w cli urlPath query) (request_body body) = Inl err"
  shows "post w cli ctx urlPath query header body s = (Some (''create request: '' @ err), [])"
proof (cases "query = Map.empty")
  case True
  with assms show ?thesis
    by (simp add: post_def Let_def)
next
  case False
  with assms show ?thesis
    by (simp add: post_def Let_def)
qed

lemma post_send_fails:
  assumes "NewRequest w ''POST'' (request_url w cli urlPath query) (request_body body) = Inr req0"
    and "ctxhttp_Do w ctx (client cli) (as_sent cli header req0) = Inl err"
  shows "post w cli ctx urlPath query header body s =
           (Some (''send post request: '' @ err), [DoRequest (as_sent cli header req0)])"
proof (cases "query = Map.empty")
  case True
  with assms show ?thesis
    by (simp add: post_def Let_def)
next
  case False
  with assms show ?thesis
    by (simp add: post_def Let_def)
qed

lemma post_answered:
  assumes "NewRequest w ''POST'' (request_url w cli urlPath query) (request_body body) = Inr req0"
    and "ctxhttp_Do w ctx (client cli) (as_sent cli header req0) = Inr resp"
  shows "post w cli ctx urlPath query header body s =
     (if StatusCode resp \<noteq> 200 then
        (case failure (Body resp) of
           Some err \<Rightarrow> (Some (''read error resp: '' @ err),
              DoRequest (as_sent cli header req0) # map BodyRead (chunks (Body resp)) @
                [BodyReadError err, BodyClose])
         | None \<Rightarrow> (Some (''Error posting to '' @ urlPath @ '': code '' @
                       fmt_d (StatusCode resp) @ '', err: '' @ concat (chunks (Body resp))),
              DoRequest (as_sent cli header req0) # map BodyRead (chunks (Body resp)) @
                [BodyEOF, BodyClose]))
      else if s then
        (case failure (Body resp) of
           Some err \<Rightarrow> (Some (''read resp body: '' @ err),
              DoRequest (as_sent cli header req0) # map BodyRead (chunks (Body resp)) @
                [BodyReadError err, BodyClose])
         | None \<Rightarrow> (None,
              DoRequest (as_sent cli header req0) # map BodyRead (chunks (Body resp)) @
                [BodyEOF, BodyClose]))
      else (None, [DoRequest (as_sent cli header req0), BodyClose]))"
proof (cases "query = Map.empty")
  case True
  with assms show ?thesis
    by (cases "failure (Body resp)") (simp_all add: post_def Let_def ReadAll_eq)
next
  case False
  with assms show ?thesis
    by (cases "failure (Body resp)") (simp_all add: post_def Let_def ReadAll_eq)
qed

lemma post_requests:
  "filter (\<lambda>e. case e of DoRequest _ \<Rightarrow> True | _ \<Rightarrow> False)
     (snd (post w cli ctx urlPath query header body s)) =
   (case NewRequest w ''POST'' (request_url w cli urlPath query) (request_body body) of
      Inl err \<Rightarrow> []
    | Inr req0 \<Rightarrow> [DoRequest (as_sent cli header req0)])"
proof (cases "NewRequest w ''POST'' (request_url w cli urlPath query) (request_body body)")
  case (Inl err)
  then show ?thesis
    by (simp add: post_create_fails)
next
  case (Inr req0)
  note made = this
  show ?thesis
  proof (cases "ctxhttp_Do w ctx (client cli) (as_sent cli header req0)")
    case (Inl err)
    with made show ?thesis
      by (simp add: post_send_fails)
  next
    case (Inr resp)
    have "filter (\<lambda>e. case e of DoRequest _ \<Rightarrow> True | _ \<Rightarrow> False) (map BodyRead cs) = []" for cs
      by (induction cs) simp_all
    with made Inr show ?thesis
      by (simp add: post_answered split: option.split)
  qed
qed

lemma post_sent:
  assumes "DoRequest req \<in> set (snd (post w cli ctx urlPath query header body s))"
  shows "\<exists>req0. NewRequest w ''POST'' (request_url w cli urlPath query) (request_body body) = Inr req0
           \<and> req = as_sent cli header req0"
proof -
  from assms have "DoRequest req \<in> set (filter (\<lambda>e. case e of DoRequest _ \<Rightarrow> True | _ \<Rightarrow> False)
     (snd (post w cli ctx urlPath query header body s)))"
    by simp
  then have m: "DoRequest req \<in> set
     (case NewRequest w ''POST'' (request_url w cli urlPath query) (request_body body) of
        Inl err \<Rightarrow> []
      | Inr req0 \<Rightarrow> [DoRequest (as_sent cli header req0)])"
    by (simp only: post_requests)
  show ?thesis
  proof (cases "NewRequest w ''POST'' (request_url w cli urlPath query) (request_body body)")
    case (Inl err)
    with m show ?thesis by simp
  next
    case (Inr req0)
    with m have "req = as_sent cli header req0" by simp
    with Inr show ?thesis by blast
  qed
qed


lemma example_client_built:
  "NewDockerClient (example_world answer) ''unix:///var/run/docker.sock'' ''http'' ''1.24''
     ''registry.local'' = (Some example_client, None)"
  using parseHost_unix_eq [of "example_world answer" "''/var/run/docker.sock''"]
  by (simp add: NewDockerClient_def example_client_def example_world_def)

lemma example_post:
  "post (example_world (Inr resp)) example_client () ''/images/create''
     [''fromImage'' \<mapsto> [''registry.local/alpine''], ''tag'' \<mapsto> [''latest'']]
     [''X-Registry-Auth'' \<mapsto> ['''']] None s =
   (if StatusCode resp \<noteq> 200 then
        (case failure (Body resp) of
           Some err \<Rightarrow> (Some (''read error resp: '' @ err),
              DoRequest example_request # map BodyRead (chunks (Body resp)) @
                [BodyReadError err, BodyClose])
         | None \<Rightarrow> (Some (''Error posting to '' @ ''/images/create'' @ '': code '' @
                       fmt_d (StatusCode resp) @ '', err: '' @ concat (chunks (Body resp))),
              DoRequest example_request # map BodyRead (chunks (Body resp)) @
                [BodyEOF, BodyClose]))
      else if s then
        (case failure (Body resp) of
           Some err \<Rightarrow> (Some (''read resp body: '' @ err),
              DoRequest example_request # map BodyRead (chunks (Body resp)) @
                [BodyReadError err, BodyClose])
         | None \<Rightarrow> (None,
              DoRequest example_request # map BodyRead (chunks (Body resp)) @
                [BodyEOF, BodyClose]))
      else (None, [DoRequest example_request, BodyClose]))"
proof -
  define q :: Values
    where "q = [''fromImage'' \<mapsto> [''registry.local/alpine''], ''tag'' \<mapsto> [''latest'']]"
  define h :: Header where "h = [''X-Registry-Auth'' \<mapsto> ['''']]"
  define req0 where "req0 =
     \<lparr>Method = ''POST'',
      URL = \<lparr>Scheme = [], Host = [], Path = ''/v1.24/images/create'',
             RawQuery = ''fromImage=registry.local%2Falpine&tag=latest''\<rparr>,
      Header = Map.empty, ReqHost = [], ReqBody = []\<rparr>"
  have ne: "q \<noteq> Map.empty"
    by (simp add: q_def)
  have enc: "Values_Encode (example_world (Inr resp)) q = ''fromImage=registry.local%2Falpine&tag=latest''"
    by (simp add: example_world_def q_def)
  have path: "apiPath example_client ''/images/create'' = ''/v1.24/images/create''"
    by (simp add: apiPath_def TrimPrefix_def example_client_def)
  have made: "NewRequest (example_world (Inr resp)) ''POST''
      (request_url (example_world (Inr resp)) example_client ''/images/create'' q)
      (request_body None) = Inr req0"
    unfolding path using ne enc by (simp add: example_world_def req0_def)
  have sent: "as_sent example_client h req0 = example_request"
    by (simp add: req0_def example_request_def example_client_def h_def)
  have answer: "ctxhttp_Do (example_world (Inr resp)) () (client example_client)
      (as_sent example_client h req0) = Inr resp"
    by (simp add: example_world_def)
  from post_answered [OF made answer, where s = s] show ?thesis
    unfolding sent unfolding q_def h_def .
qed

lemma example_post_sent:
  "DoRequest example_request \<in> set (snd
     (post (example_world (Inr resp)) example_client () ''/images/create''
       [''fromImage'' \<mapsto> [''registry.local/alpine''], ''tag'' \<mapsto> [''latest'']]
       [''X-Registry-Auth'' \<mapsto> ['''']] None s))"
  unfolding example_post by (simp split: option.split)





text \<open>
  C8. Every request that \<open>post\<close> hands to the HTTP client has the \<open>Host\<close> value
  \<open>docker\<close>, and the host and scheme of its URL are the client's address and scheme:
  for a client built by \<open>NewDockerClient\<close>, the address that \<open>parseHost\<close> returned
  and the scheme given at construction.
\<close>

theorem post_request_host:
  assumes "DoRequest req \<in> set (snd (post w cli ctx urlPath query header body s))"
  shows "ReqHost req = ''docker'' \<and> Host (URL req) = addr cli \<and> Scheme (URL req) = scheme cli \<and>
         (\<forall>host sch ver reg. NewDockerClient w host sch ver reg = (Some cli, None) \<longrightarrow>
            Host (URL req) = fst (snd (parseHost w host)) \<and> Scheme (URL req) = sch)"
proof -
  from post_sent [OF assms] obtain req0 where "req = as_sent cli header req0"
    by blast
  then have r: "ReqHost req = ''docker'' \<and> Host (URL req) = addr cli \<and> Scheme (URL req) = scheme cli"
    by simp
  have "addr cli = fst (snd (parseHost w host)) \<and> scheme cli = sch"
    if "NewDockerClient w host sch ver reg = (Some cli, None)" for host sch ver reg
    using that by (auto simp: NewDockerClient_def split: prod.splits option.splits)
  with r show ?thesis
    by simp
qed

theorem post_request_host_witness:
  "DoRequest example_request \<in> set (snd
     (post (example_world (Inr \<lparr>StatusCode = 200, Body = \<lparr>chunks = [], failure = None\<rparr>\<rparr>))
       example_client () ''/images/create''
       [''fromImage'' \<mapsto> [''registry.local/alpine''], ''tag'' \<mapsto> [''latest'']]
       [''X-Registry-Auth'' \<mapsto> ['''']] None True)) \<and>
   NewDockerClient
     (example_world (Inr \<lparr>StatusCode = 200, Body = \<lparr>chunks = [], failure = None\<rparr>\<rparr>))
     ''unix:///var/run/docker.sock'' ''http'' ''1.24'' ''registry.local'' =
     (Some example_client, None) \<and>
   ReqHost example_request = ''docker'' \<and>
   Host (URL example_request) = ''/var/run/docker.sock'' \<and>
   Scheme (URL example_request) = ''http'' \<and>
   Host (URL example_request) =
     fst (snd (parseHost
       (example_world (Inr \<lparr>StatusCode = 200, Body = \<lparr>chunks = [], failure = None\<rparr>\<rparr>))
       ''unix:///var/run/docker.sock''))"
proof -
  define W where
    "W = example_world (Inr \<lparr>StatusCode = 200, Body = \<lparr>chunks = [], failure = None\<rparr>\<rparr>)"
  have sent: "DoRequest example_request \<in> set (snd
     (post W example_client () ''/images/create''
       [''fromImage'' \<mapsto> [''registry.local/alpine''], ''tag'' \<mapsto> [''latest'']]
       [''X-Registry-Auth'' \<mapsto> ['''']] None True))"
    unfolding W_def by (rule example_post_sent)
  have built: "NewDockerClient W ''unix:///var/run/docker.sock'' ''http'' ''1.24''
      ''registry.local'' = (Some example_client, None)"
    unfolding W_def by (rule example_client_built)
  note host = post_request_host [OF sent]
  from host have a: "ReqHost example_request = ''docker''"
    and b: "Host (URL example_request) = addr example_client"
    and c: "Scheme (URL example_request) = scheme example_client"
    by simp_all
  from host have "\<forall>host sch ver reg.
      NewDockerClient W host sch ver reg = (Some example_client, None) \<longrightarrow>
      Host (URL example_request) = fst (snd (parseHost W host)) \<and>
      Scheme (URL example_request) = sch"
    by (elim conjE)
  with built have d: "Host (URL example_request) =
      fst (snd (parseHost W ''unix:///var/run/docker.sock''))"
    by (elim allE impE conjE)
  from b c have e: "Host (URL example_request) = ''/var/run/docker.sock''"
    "Scheme (URL example_request) = ''http''"
    by (simp_all add: example_client_def)
  from sent built a e d show ?thesis
    unfolding W_def by (intro conjI)
qed

section \<open>Pulling an image\<close>

lemma ImagePull_call:
  "ImagePull w cli ctx repo tag =
     post w cli ctx ''/images/create''
       [''fromImage'' \<mapsto> [registry cli @ ''/'' @ repo], ''tag'' \<mapsto> [tag]]
       [''X-Registry-Auth'' \<mapsto> ['''']] None True"
  by (simp add: ImagePull_def Set_def)




section \<open>A base path of one slash\<close>

text \<open>
  The executor prints the URL made of the built path and lets \<^verbatim>\<open>http.NewRequest\<close> parse
  the string again. A built path that starts with two slashes does not survive this: its
  first segment is read as the host, which the executor then overwrites with the
  client's address. The base path of \<^verbatim>\<open>tcp://localhost:2375/\<close> is one slash, so every
  path built from it starts with two.
\<close>

lemma root_client_built:
  "NewDockerClient (example_world answer) ''tcp://localhost:2375/'' ''http'' ver
     ''registry.local'' = (Some (root_client ver), None)"
  using parseHost_tcp_eq [of "example_world answer" "''localhost:2375/''"]
  by (simp add: NewDockerClient_def root_client_def example_world_def)

lemma root_pull:
  assumes ver: "ver = ''1.24'' \<or> ver = ''v''"
  shows "ImagePull
     (example_world (Inr \<lparr>StatusCode = 200, Body = \<lparr>chunks = [], failure = None\<rparr>\<rparr>))
     (root_client ver) () ''alpine'' ''latest'' =
     (None, [DoRequest root_request, BodyEOF, BodyClose])"
proof -
  define W where
    "W = example_world (Inr \<lparr>StatusCode = 200, Body = \<lparr>chunks = [], failure = None\<rparr>\<rparr>)"
  define q :: Values
    where "q = [''fromImage'' \<mapsto> [''registry.local/alpine''], ''tag'' \<mapsto> [''latest'']]"
  define h :: Header where "h = [''X-Registry-Auth'' \<mapsto> ['''']]"
  define host where "host = (if ver = ''1.24'' then ''v1.24'' else ''v'')"
  define req0 where "req0 =
     \<lparr>Method = ''POST'',
      URL = \<lparr>Scheme = [], Host = host, Path = ''/images/create'',
             RawQuery = ''fromImage=registry.local%2Falpine&tag=latest''\<rparr>,
      Header = Map.empty, ReqHost = host, ReqBody = []\<rparr>"
  have ne: "q \<noteq> Map.empty"
    by (simp add: q_def)
  have enc: "Values_Encode W q = ''fromImage=registry.local%2Falpine&tag=latest''"
    by (simp add: W_def example_world_def q_def)
  have path: "apiPath (root_client ver) ''/images/create'' =
      (if ver = ''1.24'' then ''//v1.24/images/create'' else ''//v/images/create'')"
    using ver by (auto simp: apiPath_def TrimPrefix_def root_client_def)
  have made: "NewRequest W ''POST'' (request_url W (root_client ver) ''/images/create'' q)
      (request_body None) = Inr req0"
    unfolding path using ne enc ver
    by (auto simp: W_def example_world_def req0_def host_def)
  have sent: "as_sent (root_client ver) h req0 = root_request"
    by (simp add: req0_def root_request_def root_client_def h_def)
  have answer: "ctxhttp_Do W () (client (root_client ver)) (as_sent (root_client ver) h req0) =
      Inr \<lparr>StatusCode = 200, Body = \<lparr>chunks = [], failure = None\<rparr>\<rparr>"
    by (simp add: W_def example_world_def)
  have reg: "registry (root_client ver) = ''registry.local''"
    by (simp add: root_client_def)
  have "post W (root_client ver) () ''/images/create'' q h None True =
      (None, [DoRequest root_request, BodyEOF, BodyClose])"
    using post_answered [OF made answer, where s = True] unfolding sent by simp
  then show ?thesis
    unfolding ImagePull_call reg W_def q_def h_def by simp
qed

text \<open>
  C4. For the client of \<^verbatim>\<open>tcp://localhost:2375/\<close> with version \<open>1.24\<close> the executor builds
  the path \<open>//v1.24/images/create\<close>, which is base path, \<open>/v\<close>, version and operation
  path; but the request it sends has the path \<open>/images/create\<close>, which is not that
  path and contains no \<open>/v1.24/\<close>.
\<close>

theorem version_segment_lost:
  "NewDockerClient
     (example_world (Inr \<lparr>StatusCode = 200, Body = \<lparr>chunks = [], failure = None\<rparr>\<rparr>))
     ''tcp://localhost:2375/'' ''http'' ''1.24'' ''registry.local'' =
     (Some (root_client ''1.24''), None) \<and>
   apiPath (root_client ''1.24'') ''/images/create'' = ''//v1.24/images/create'' \<and>
   ImagePull
     (example_world (Inr \<lparr>StatusCode = 200, Body = \<lparr>chunks = [], failure = None\<rparr>\<rparr>))
     (root_client ''1.24'') () ''alpine'' ''latest'' =
     (None, [DoRequest root_request, BodyEOF, BodyClose]) \<and>
   Path (URL root_request) = ''/images/create'' \<and>
   Path (URL root_request) \<noteq>
     basePath (root_client ''1.24'') @ ''/v'' @ ''1.24'' @ ''/images/create'' \<and>
   \<not> sublist ''/v1.24/'' (Path (URL root_request))"
proof -
  have a: "apiPath (root_client ''1.24'') ''/images/create'' = ''//v1.24/images/create''"
    by (simp add: apiPath_def TrimPrefix_def root_client_def)
  have b: "Path (URL root_request) = ''/images/create''"
    by (simp add: root_request_def)
  have c: "\<not> sublist ''/v1.24/'' ''/images/create''"
    by (simp add: sublist_Cons_right)
  have d: "basePath (root_client ''1.24'') = ''/''"
    by (simp add: root_client_def)
  show ?thesis
    unfolding b d using root_client_built [of _ "''1.24''"] root_pull [of "''1.24''"] a c
    by simp
qed

text \<open>
  C10. For the client of \<^verbatim>\<open>tcp://localhost:2375/\<close> with version \<open>v\<close> the executor builds
  the path \<open>//v/images/create\<close> with its bare \<open>/v\<close>; but the request it sends has the
  path \<open>/images/create\<close>: the version segment is missing although the version is
  not empty.
\<close>

theorem bare_v_segment_lost:
  "NewDockerClient
     (example_world (Inr \<lparr>StatusCode = 200, Body = \<lparr>chunks = [], failure = None\<rparr>\<rparr>))
     ''tcp://localhost:2375/'' ''http'' ''v'' ''registry.local'' =
     (Some (root_client ''v''), None) \<and>
   version (root_client ''v'') = ''v'' \<and>
   apiPath (root_client ''v'') ''/images/create'' = ''//v/images/create'' \<and>
   ImagePull
     (example_world (Inr \<lparr>StatusCode = 200, Body = \<lparr>chunks = [], failure = None\<rparr>\<rparr>))
     (root_client ''v'') () ''alpine'' ''latest'' =
     (None, [DoRequest root_request, BodyEOF, BodyClose]) \<and>
   Path (URL root_request) = ''/images/create'' \<and>
   Path (URL root_request) \<noteq> basePath (root_client ''v'') @ ''/v'' @ ''/images/create'' \<and>
   \<not> sublist ''/v/'' (Path (URL root_request))"
proof -
  have a: "apiPath (root_client ''v'') ''/images/create'' = ''//v/images/create''"
    by (simp add: apiPath_def TrimPrefix_def root_client_def)
  have b: "Path (URL root_request) = ''/images/create''"
    by (simp add: root_request_def)
  have c: "\<not> sublist ''/v/'' ''/images/create''"
    by (simp add: sublist_Cons_right)
  have d: "basePath (root_client ''v'') = ''/''" "version (root_client ''v'') = ''v''"
    by (simp_all add: root_client_def)
  show ?thesis
    unfolding b d using root_client_built [of _ "''v''"] root_pull [of "''v''"] a c
    by simp
qed

end
